theory Spec2Isabelle
  imports Main "HOL-Library.Word"
begin

section \<open>The Go runtime as callback.go uses it\<close>

text \<open>
  callback.go marshals values between the SQL engine and a Go function through package
  reflect. This section holds what the file takes from the language and its runtime:
  type descriptors, boxed values, type assertions and numeric conversion.
\<close>

type_synonym byte = "8 word"

subsection \<open>Errors and panics\<close>

text \<open>
  A converter ends in one of three ways: it returns a value, it returns an error, or it
  panics. \<open>PkgErr rc msg\<close> is a returned error, \<open>Panic msg\<close> a run-time panic.
\<close>

datatype failure = PkgErr int string | Panic string

text \<open>
  Modelled from the spec: \<open>pkgErr\<close> and the result code \<open>MISUSE\<close> are declared in
  other files of the package. The spec gives every error of this layer one taxonomy tag,
  MISUSE, and a human-readable message; the tag is the engine's \<open>SQLITE_MISUSE\<close> (21).
  The message is passed here already formatted.
\<close>

definition MISUSE :: int where
  "MISUSE = 21"

definition pkgErr :: "int \<Rightarrow> string \<Rightarrow> failure" where
  "pkgErr rc msg = PkgErr rc msg"

subsection \<open>reflect.Type\<close>

text \<open>The kinds of package reflect; \<open>Int'\<close> is \<open>reflect.Int\<close>.\<close>

datatype Kind =
    Invalid | Bool
  | Int' | Int8 | Int16 | Int32 | Int64
  | Uint | Uint8 | Uint16 | Uint32 | Uint64 | Uintptr
  | Float32 | Float64 | Complex64 | Complex128
  | Array | Chan | Func | Interface | Map | Pointer | Slice | String | Struct
  | UnsafePointer

text \<open>
  A type descriptor: what \<open>String()\<close> prints, the \<open>Kind()\<close>, \<open>NumMethod()\<close> and, for
  a type that has one, the element type. Two types are identical when their descriptors
  are equal. A defined type such as \<open>time.Duration\<close> has the kind of its underlying
  type (\<open>Int64\<close>) and a name of its own.
\<close>

datatype rtype = RType (TypeString: string) (Kind: Kind) (NumMethod: nat) (elem: "rtype option")

text \<open>\<open>Elem()\<close> panics on a type that has no element type.\<close>

definition Elem :: "rtype \<Rightarrow> failure + rtype" where
  "Elem t = (case elem t of
       None \<Rightarrow> Inl (Panic (''reflect: Elem of invalid type '' @ TypeString t))
     | Some e \<Rightarrow> Inr e)"

text \<open>The predeclared types the file names.\<close>

definition boolT :: rtype where "boolT = RType ''bool'' Bool 0 None"
definition int64T :: rtype where "int64T = RType ''int64'' Int64 0 None"
definition float64T :: rtype where "float64T = RType ''float64'' Float64 0 None"
definition stringT :: rtype where "stringT = RType ''string'' String 0 None"
definition uint8T :: rtype where "uint8T = RType ''uint8'' Uint8 0 None"
definition bytesT :: rtype where "bytesT = RType ''[]uint8'' Slice 0 (Some uint8T)"

subsection \<open>reflect.Value\<close>

text \<open>
  A boxed value is its dynamic type and its contents. Integers of every width are held
  as the mathematical integer they denote; floats of both widths as the bits of the
  double of the same value (as \<open>Value.Float()\<close> reads them); a byte slice is \<open>None\<close>
  when it is nil; a string is its bytes. \<open>POther\<close> stands for the contents of any
  other type (a struct, a map, ...).
\<close>

datatype payload =
    PBool bool
  | PInt int
  | PFloat "64 word"
  | PBytes "byte list option"
  | PString "byte list"
  | POther

datatype Value = Value (Type: rtype) (payload: payload)

definition ValueOf_int64 :: "64 word \<Rightarrow> Value" where
  "ValueOf_int64 i = Value int64T (PInt (sint i))"

definition ValueOf_bool :: "bool \<Rightarrow> Value" where
  "ValueOf_bool b = Value boolT (PBool b)"

definition ValueOf_float64 :: "64 word \<Rightarrow> Value" where
  "ValueOf_float64 d = Value float64T (PFloat d)"

definition ValueOf_bytes :: "byte list option \<Rightarrow> Value" where
  "ValueOf_bytes bs = Value bytesT (PBytes bs)"

definition ValueOf_string :: "byte list \<Rightarrow> Value" where
  "ValueOf_string s = Value stringT (PString s)"

subsection \<open>Type assertions on \<open>v.Interface()\<close>\<close>

text \<open>
  \<open>v.Interface().(T)\<close> for a concrete type \<open>T\<close> succeeds only when the dynamic type
  of \<open>v\<close> is identical to \<open>T\<close>; otherwise it panics. The kind alone does not decide it.
\<close>

definition assert_panic :: "Value \<Rightarrow> rtype \<Rightarrow> failure" where
  "assert_panic v t =
     Panic (''interface conversion: interface {} is '' @ TypeString (Type v) @ '', not ''
            @ TypeString t)"

definition Interface_bool :: "Value \<Rightarrow> failure + bool" where
  "Interface_bool v =
     (if Type v \<noteq> boolT then Inl (assert_panic v boolT)
      else case payload v of PBool b \<Rightarrow> Inr b | _ \<Rightarrow> Inl (Panic ''malformed value''))"

definition Interface_int64 :: "Value \<Rightarrow> failure + 64 word" where
  "Interface_int64 v =
     (if Type v \<noteq> int64T then Inl (assert_panic v int64T)
      else case payload v of PInt i \<Rightarrow> Inr (word_of_int i) | _ \<Rightarrow> Inl (Panic ''malformed value''))"

definition Interface_float64 :: "Value \<Rightarrow> failure + 64 word" where
  "Interface_float64 v =
     (if Type v \<noteq> float64T then Inl (assert_panic v float64T)
      else case payload v of PFloat d \<Rightarrow> Inr d | _ \<Rightarrow> Inl (Panic ''malformed value''))"

definition Interface_bytes :: "Value \<Rightarrow> failure + byte list option" where
  "Interface_bytes v =
     (if Type v \<noteq> bytesT then Inl (assert_panic v bytesT)
      else case payload v of PBytes bs \<Rightarrow> Inr bs | _ \<Rightarrow> Inl (Panic ''malformed value''))"

definition Interface_string :: "Value \<Rightarrow> failure + byte list" where
  "Interface_string v =
     (if Type v \<noteq> stringT then Inl (assert_panic v stringT)
      else case payload v of PString s \<Rightarrow> Inr s | _ \<Rightarrow> Inl (Panic ''malformed value''))"

subsection \<open>Numeric conversion: \<open>ConvertibleTo\<close> and \<open>Convert\<close>\<close>

text \<open>
  What the file does not fix: the width of \<open>int\<close> and \<open>uint\<close> (32 or 64 bits), and
  the hardware's floating-point conversions, which act here on the bits of a double:
  rounding to the nearest single, integer to double, double to signed and to unsigned
  64-bit integer.
\<close>

record runtime =
  intSize :: nat
  roundFloat32 :: "64 word \<Rightarrow> 64 word"
  intToFloat :: "int \<Rightarrow> 64 word"
  floatToInt :: "64 word \<Rightarrow> int"
  floatToUint :: "64 word \<Rightarrow> int"

definition isInt :: "Kind \<Rightarrow> bool" where
  "isInt k = (k = Int' \<or> k = Int8 \<or> k = Int16 \<or> k = Int32 \<or> k = Int64)"

definition isUint :: "Kind \<Rightarrow> bool" where
  "isUint k = (k = Uint \<or> k = Uint8 \<or> k = Uint16 \<or> k = Uint32 \<or> k = Uint64 \<or> k = Uintptr)"

definition isFloat :: "Kind \<Rightarrow> bool" where
  "isFloat k = (k = Float32 \<or> k = Float64)"

definition isNumeric :: "Kind \<Rightarrow> bool" where
  "isNumeric k = (isInt k \<or> isUint k \<or> isFloat k)"

text \<open>The width in bits of an integer kind.\<close>

definition bitSize :: "runtime \<Rightarrow> Kind \<Rightarrow> nat" where
  "bitSize rt k =
     (if k = Int8 \<or> k = Uint8 then 8
      else if k = Int16 \<or> k = Uint16 then 16
      else if k = Int32 \<or> k = Uint32 then 32
      else if k = Int64 \<or> k = Uint64 then 64
      else intSize rt)"

text \<open>
  Storing an integer into an integer kind keeps the low bits of its two's complement
  form and reads them back in the kind's signedness; nothing checks the range.
\<close>

definition truncInt :: "runtime \<Rightarrow> Kind \<Rightarrow> int \<Rightarrow> int" where
  "truncInt rt k i =
     (let b = bitSize rt k; m = i mod 2 ^ b
      in if isInt k \<and> 2 ^ (b - 1) \<le> m then m - 2 ^ b else m)"

text \<open>
  The conversions of package reflect between numeric kinds: every integer and float kind
  converts to every other, whatever the types are called. (An integer also converts to
  a string, its code point; that is left out, as no cast built in this file has a string
  target.) From any other source only the identical type is taken as convertible.
  \<open>Convert\<close> panics where \<open>ConvertibleTo\<close> is false. A value whose contents do not
  fit its type does not exist in Go; the model answers it with a panic.
\<close>

definition ConvertibleTo :: "rtype \<Rightarrow> rtype \<Rightarrow> bool" where
  "ConvertibleTo src dst =
     (if isNumeric (Kind src) then isNumeric (Kind dst) else src = dst)"

definition Convert :: "runtime \<Rightarrow> Value \<Rightarrow> rtype \<Rightarrow> failure + Value" where
  "Convert rt v t =
     (let s = Kind (Type v); d = Kind t in
      if \<not> ConvertibleTo (Type v) t then
        Inl (Panic (''reflect.Value.Convert: value of type '' @ TypeString (Type v)
                    @ '' cannot be converted to type '' @ TypeString t))
      else if isInt s \<or> isUint s then
        (case payload v of
           PInt i \<Rightarrow>
             Inr (Value t
               (if d = Float64 then PFloat (intToFloat rt i)
                else if d = Float32 then PFloat (roundFloat32 rt (intToFloat rt i))
                else PInt (truncInt rt d i)))
         | _ \<Rightarrow> Inl (Panic ''malformed value''))
      else if isFloat s then
        (case payload v of
           PFloat x \<Rightarrow>
             Inr (Value t
               (if isInt d then PInt (truncInt rt d (floatToInt rt x))
                else if isUint d then PInt (truncInt rt d (floatToUint rt x))
                else if d = Float32 then PFloat (roundFloat32 rt x)
                else PFloat x))
         | _ \<Rightarrow> Inl (Panic ''malformed value''))
      else Inr v)"

section \<open>The engine as callback.go uses it\<close>

subsection \<open>Argument cells\<close>

text \<open>
  A \<open>sqlite3_value\<close> is opaque to the file: it is read only through the engine's
  accessors. The record holds what each accessor answers for one cell: the type code,
  the 64-bit integer, the bits of the double, the byte count (a C int that is never
  negative), and the memory the blob and text pointers lead to (the text pointer to the
  content followed by a NUL byte).
\<close>

record sqlite3_value =
  sqlite3_value_type :: int
  sqlite3_value_int64 :: "64 word"
  sqlite3_value_double :: "64 word"
  sqlite3_value_bytes :: nat
  sqlite3_value_blob :: "byte list"
  sqlite3_value_text :: "byte list"

text \<open>
  Modelled from the spec: the five Kinds of a cell. The package declares the constants
  in another file as the engine's fundamental datatype codes, 1 to 5.
\<close>

definition INTEGER :: int where "INTEGER = 1"
definition FLOAT :: int where "FLOAT = 2"
definition TEXT :: int where "TEXT = 3"
definition BLOB :: int where "BLOB = 4"
definition NULL :: int where "NULL = 5"

text \<open>
  cgo's copies out of C memory: \<open>C.GoBytes(p, n)\<close> and \<open>C.GoStringN(p, n)\<close> copy
  \<open>n\<close> bytes, \<open>C.GoString(p)\<close> copies up to the first NUL byte.
\<close>

definition GoBytes :: "byte list \<Rightarrow> nat \<Rightarrow> byte list" where
  "GoBytes p n = take n p"

definition GoStringN :: "byte list \<Rightarrow> nat \<Rightarrow> byte list" where
  "GoStringN p n = take n p"

definition GoString :: "byte list \<Rightarrow> byte list" where
  "GoString p = takeWhile (\<lambda>b. b \<noteq> 0) p"

section \<open>Argument converters\<close>

type_synonym callbackArgConverter = "sqlite3_value \<Rightarrow> failure + Value"

record callbackArgCast =
  cast_f :: callbackArgConverter
  cast_typ :: rtype

definition callbackArgCast_Run :: "runtime \<Rightarrow> callbackArgCast \<Rightarrow> callbackArgConverter" where
  "callbackArgCast_Run rt c v =
     (case cast_f c v of
        Inl err \<Rightarrow> Inl err
      | Inr val \<Rightarrow>
          if \<not> ConvertibleTo (Type val) (cast_typ c) then
            Inl (pkgErr MISUSE (''cannot convert '' @ TypeString (Type val) @ '' to ''
                                @ TypeString (cast_typ c)))
          else Convert rt val (cast_typ c))"

definition callbackArgInt64 :: callbackArgConverter where
  "callbackArgInt64 v =
     (if sqlite3_value_type v \<noteq> INTEGER then
        Inl (pkgErr MISUSE ''argument must be an INTEGER'')
      else Inr (ValueOf_int64 (sqlite3_value_int64 v)))"

definition callbackArgBool :: callbackArgConverter where
  "callbackArgBool v =
     (if sqlite3_value_type v \<noteq> INTEGER then
        Inl (pkgErr MISUSE ''argument must be an INTEGER'')
      else let i = sqlite3_value_int64 v in Inr (ValueOf_bool (i \<noteq> 0)))"

definition callbackArgFloat64 :: callbackArgConverter where
  "callbackArgFloat64 v =
     (if sqlite3_value_type v \<noteq> FLOAT then
        Inl (pkgErr MISUSE ''argument must be a FLOAT'')
      else Inr (ValueOf_float64 (sqlite3_value_double v)))"

definition callbackArgBytes :: callbackArgConverter where
  "callbackArgBytes v =
     (if sqlite3_value_type v = BLOB then
        (let l = sqlite3_value_bytes v; p = sqlite3_value_blob v
         in Inr (ValueOf_bytes (Some (GoBytes p l))))
      else if sqlite3_value_type v = TEXT then
        (let l = sqlite3_value_bytes v; c = sqlite3_value_text v
         in Inr (ValueOf_bytes (Some (GoBytes c l))))
      else Inl (pkgErr MISUSE ''argument must be BLOB or TEXT''))"

definition callbackArgString :: callbackArgConverter where
  "callbackArgString v =
     (if sqlite3_value_type v = BLOB then
        (let l = sqlite3_value_bytes v; p = sqlite3_value_blob v
         in Inr (ValueOf_string (GoStringN p l)))
      else if sqlite3_value_type v = TEXT then
        (let c = sqlite3_value_text v in Inr (ValueOf_string (GoString c)))
      else Inl (pkgErr MISUSE ''argument must be BLOB or TEXT''))"

definition callbackArgGeneric :: callbackArgConverter where
  "callbackArgGeneric v =
     (if sqlite3_value_type v = INTEGER then callbackArgInt64 v
      else if sqlite3_value_type v = FLOAT then callbackArgFloat64 v
      else if sqlite3_value_type v = TEXT then callbackArgString v
      else if sqlite3_value_type v = BLOB then callbackArgBytes v
      else if sqlite3_value_type v = NULL then Inr (ValueOf_bytes None)
      else Inl (Panic ''unreachable''))"

definition callbackArg :: "runtime \<Rightarrow> rtype \<Rightarrow> failure + callbackArgConverter" where
  "callbackArg rt typ =
     (let k = Kind typ in
      if k = Interface then
        (if NumMethod typ \<noteq> 0 then
           Inl (pkgErr MISUSE ''the only supported interface type is interface{}'')
         else Inr callbackArgGeneric)
      else if k = Slice then
        (case Elem typ of
           Inl p \<Rightarrow> Inl p
         | Inr e \<Rightarrow>
             if Kind e \<noteq> Uint8 then
               Inl (pkgErr MISUSE ''the only supported slice type is []byte'')
             else Inr callbackArgBytes)
      else if k = String then Inr callbackArgString
      else if k = Bool then Inr callbackArgBool
      else if k = Int64 then Inr callbackArgInt64
      else if k = Int8 \<or> k = Int16 \<or> k = Int32 \<or> k = Uint8 \<or> k = Uint16 \<or> k = Uint32
              \<or> k = Uint64 \<or> k = Int' \<or> k = Uint then
        Inr (callbackArgCast_Run rt \<lparr>cast_f = callbackArgInt64, cast_typ = typ\<rparr>)
      else if k = Float64 then Inr callbackArgFloat64
      else if k = Float32 then
        Inr (callbackArgCast_Run rt \<lparr>cast_f = callbackArgFloat64, cast_typ = typ\<rparr>)
      else Inl (pkgErr MISUSE (''don't know how to convert to '' @ TypeString typ)))"

section \<open>Return converters\<close>

subsection \<open>The result slot\<close>

text \<open>
  A \<open>sqlite3_context\<close> is written through the engine's result primitives. The model
  keeps the list of the primitives called on it, oldest first, so that a slot written
  twice, or never, shows.
\<close>

datatype result =
    Result_int64 "64 word"
  | Result_double "64 word"
  | Result_text "byte list"
  | Result_blob "byte list"
  | Result_null
  | Result_error "byte list"

type_synonym sqlite3_context = "result list"

definition sqlite3_result_int64 :: "sqlite3_context \<Rightarrow> 64 word \<Rightarrow> sqlite3_context" where
  "sqlite3_result_int64 ctx i = ctx @ [Result_int64 i]"

definition sqlite3_result_double :: "sqlite3_context \<Rightarrow> 64 word \<Rightarrow> sqlite3_context" where
  "sqlite3_result_double ctx d = ctx @ [Result_double d]"

definition sqlite3_result_null :: "sqlite3_context \<Rightarrow> sqlite3_context" where
  "sqlite3_result_null ctx = ctx @ [Result_null]"

text \<open>
  The two C wrappers at the head of the file: the text result is read up to its NUL
  terminator (length \<open>-1\<close>), the blob result copies \<open>l\<close> bytes.
\<close>

definition sqlite3_result_text' :: "sqlite3_context \<Rightarrow> byte list \<Rightarrow> sqlite3_context" where
  "sqlite3_result_text' ctx s = ctx @ [Result_text (takeWhile (\<lambda>b. b \<noteq> 0) s)]"

definition sqlite3_result_blob' :: "sqlite3_context \<Rightarrow> byte list \<Rightarrow> nat \<Rightarrow> sqlite3_context" where
  "sqlite3_result_blob' ctx b l = ctx @ [Result_blob (take l b)]"

definition sqlite3_result_error :: "sqlite3_context \<Rightarrow> byte list \<Rightarrow> sqlite3_context" where
  "sqlite3_result_error ctx s = ctx @ [Result_error (takeWhile (\<lambda>b. b \<noteq> 0) s)]"

text \<open>
  Modelled from the spec: \<open>cStr\<close> is declared in another file of the package. The spec
  has the text and error primitives take a NUL-terminated buffer holding the string.
\<close>

definition cStr :: "byte list \<Rightarrow> byte list" where
  "cStr s = s @ [0]"

subsection \<open>The converters\<close>

type_synonym callbackRetConverter =
  "sqlite3_context \<Rightarrow> Value \<Rightarrow> sqlite3_context \<times> failure option"

definition callbackRetInteger :: "runtime \<Rightarrow> callbackRetConverter" where
  "callbackRetInteger rt ctx v =
     (let k = Kind (Type v);
          r = (if k = Int64 then Inr v
               else if k = Int8 \<or> k = Int16 \<or> k = Int32 \<or> k = Uint8 \<or> k = Uint16
                       \<or> k = Uint32 \<or> k = Uint64 \<or> k = Int' \<or> k = Uint then
                 Convert rt v int64T
               else if k = Bool then
                 (case Interface_bool v of
                    Inl p \<Rightarrow> Inl p
                  | Inr b \<Rightarrow> if b then Inr (ValueOf_int64 1) else Inr (ValueOf_int64 0))
               else Inl (pkgErr MISUSE
                          (''cannot convert '' @ TypeString (Type v) @ '' to INTEGER'')))
      in case r of
           Inl e \<Rightarrow> (ctx, Some e)
         | Inr v' \<Rightarrow>
             (case Interface_int64 v' of
                Inl p \<Rightarrow> (ctx, Some p)
              | Inr i \<Rightarrow> (sqlite3_result_int64 ctx i, None)))"

definition callbackRetFloat :: "runtime \<Rightarrow> callbackRetConverter" where
  "callbackRetFloat rt ctx v =
     (let k = Kind (Type v);
          r = (if k = Float64 then Inr v
               else if k = Float32 then Convert rt v float64T
               else Inl (pkgErr MISUSE
                          (''cannot convert '' @ TypeString (Type v) @ '' to FLOAT'')))
      in case r of
           Inl e \<Rightarrow> (ctx, Some e)
         | Inr v' \<Rightarrow>
             (case Interface_float64 v' of
                Inl p \<Rightarrow> (ctx, Some p)
              | Inr d \<Rightarrow> (sqlite3_result_double ctx d, None)))"

text \<open>
  \<open>v.Interface()\<close> boxes a typed value, and an interface holding a typed value is
  never equal to \<open>nil\<close>, even when the value is a nil slice: the test \<open>i == nil\<close> of
  \<open>callbackRetBlob\<close> is always false. \<open>len\<close> of a nil slice is 0.
\<close>

definition Interface_is_nil :: "Value \<Rightarrow> bool" where
  "Interface_is_nil v = False"

definition len :: "byte list option \<Rightarrow> nat" where
  "len bs = (case bs of None \<Rightarrow> 0 | Some xs \<Rightarrow> length xs)"

text \<open>The memory \<open>&bs[0]\<close> points to: the elements of the slice.\<close>

definition data :: "byte list option \<Rightarrow> byte list" where
  "data bs = (case bs of None \<Rightarrow> [] | Some xs \<Rightarrow> xs)"

definition callbackRetBlob :: callbackRetConverter where
  "callbackRetBlob ctx v =
     (let err = pkgErr MISUSE (''cannot convert '' @ TypeString (Type v) @ '' to BLOB'') in
      if Kind (Type v) \<noteq> Slice then (ctx, Some err)
      else
        (case Elem (Type v) of
           Inl p \<Rightarrow> (ctx, Some p)
         | Inr e \<Rightarrow>
             if Kind e \<noteq> Uint8 then (ctx, Some err)
             else if Interface_is_nil v then (sqlite3_result_null ctx, None)
             else
               (case Interface_bytes v of
                  Inl p \<Rightarrow> (ctx, Some p)
                | Inr bs \<Rightarrow>
                    if len bs = 0 then (sqlite3_result_null ctx, None)
                    else (sqlite3_result_blob' ctx (data bs) (len bs), None))))"

definition callbackRetText :: callbackRetConverter where
  "callbackRetText ctx v =
     (if Kind (Type v) \<noteq> String then
        (ctx, Some (pkgErr MISUSE (''cannot convert '' @ TypeString (Type v) @ '' to TEXT'')))
      else
        (case Interface_string v of
           Inl p \<Rightarrow> (ctx, Some p)
         | Inr s \<Rightarrow> (sqlite3_result_text' ctx (cStr s), None)))"

definition callbackRet :: "runtime \<Rightarrow> rtype \<Rightarrow> failure + callbackRetConverter" where
  "callbackRet rt typ =
     (let k = Kind typ in
      if k = Slice then
        (case Elem typ of
           Inl p \<Rightarrow> Inl p
         | Inr e \<Rightarrow>
             if Kind e \<noteq> Uint8 then
               Inl (pkgErr MISUSE ''the only supported slice type is []byte'')
             else Inr callbackRetBlob)
      else if k = String then Inr callbackRetText
      else if k = Bool \<or> k = Int8 \<or> k = Int16 \<or> k = Int32 \<or> k = Int64 \<or> k = Uint8
              \<or> k = Uint16 \<or> k = Uint32 \<or> k = Uint64 \<or> k = Int' \<or> k = Uint then
        Inr (callbackRetInteger rt)
      else if k = Float32 \<or> k = Float64 then Inr (callbackRetFloat rt)
      else Inl (pkgErr MISUSE (''don't know how to convert to '' @ TypeString typ)))"

subsection \<open>Error surfacing\<close>

text \<open>
  \<open>callbackError\<close> writes the text of \<open>err.Error()\<close>. The method belongs to the
  package's error type, declared in another file; it is the parameter \<open>Error\<close>.
\<close>

definition callbackError :: "(failure \<Rightarrow> byte list) \<Rightarrow> sqlite3_context \<Rightarrow> failure \<Rightarrow> sqlite3_context" where
  "callbackError Error ctx err = sqlite3_result_error ctx (cStr (Error err))"

section \<open>Sample inputs\<close>

text \<open>
  A 64-bit platform. Its floating-point conversions are those of the hardware and are
  left unspecified; no sample below goes through them.
\<close>

definition amd64 :: runtime where
  "amd64 = \<lparr>intSize = 64, roundFloat32 = undefined, intToFloat = undefined,
     floatToInt = undefined, floatToUint = undefined\<rparr>"

text \<open>
  Cells as the engine presents them: the integers 300 and 5000000000, the float 3.14,
  the text \<open>a\<close>, NUL, \<open>b\<close>, a three-byte blob and NULL, each with the answers of all
  six accessors.
\<close>

definition cell_300 :: sqlite3_value where
  "cell_300 = \<lparr>sqlite3_value_type = INTEGER, sqlite3_value_int64 = 300,
     sqlite3_value_double = 0x4072C00000000000, sqlite3_value_bytes = 3,
     sqlite3_value_blob = [51, 48, 48], sqlite3_value_text = [51, 48, 48, 0]\<rparr>"

definition cell_5e9 :: sqlite3_value where
  "cell_5e9 = \<lparr>sqlite3_value_type = INTEGER, sqlite3_value_int64 = 5000000000,
     sqlite3_value_double = 0x41F2A05F20000000, sqlite3_value_bytes = 10,
     sqlite3_value_blob = [53, 48, 48, 48, 48, 48, 48, 48, 48, 48],
     sqlite3_value_text = [53, 48, 48, 48, 48, 48, 48, 48, 48, 48, 0]\<rparr>"

definition cell_pi :: sqlite3_value where
  "cell_pi = \<lparr>sqlite3_value_type = FLOAT, sqlite3_value_int64 = 3,
     sqlite3_value_double = 0x40091EB851EB851F, sqlite3_value_bytes = 4,
     sqlite3_value_blob = [51, 46, 49, 52], sqlite3_value_text = [51, 46, 49, 52, 0]\<rparr>"

definition cell_a0b :: sqlite3_value where
  "cell_a0b = \<lparr>sqlite3_value_type = TEXT, sqlite3_value_int64 = 0,
     sqlite3_value_double = 0, sqlite3_value_bytes = 3,
     sqlite3_value_blob = [97, 0, 98], sqlite3_value_text = [97, 0, 98, 0]\<rparr>"

definition cell_blob :: sqlite3_value where
  "cell_blob = \<lparr>sqlite3_value_type = BLOB, sqlite3_value_int64 = 0,
     sqlite3_value_double = 0, sqlite3_value_bytes = 3,
     sqlite3_value_blob = [1, 2, 3], sqlite3_value_text = [1, 2, 3, 0]\<rparr>"

definition cell_null :: sqlite3_value where
  "cell_null = \<lparr>sqlite3_value_type = NULL, sqlite3_value_int64 = 0,
     sqlite3_value_double = 0, sqlite3_value_bytes = 0,
     sqlite3_value_blob = [], sqlite3_value_text = []\<rparr>"

text \<open>More predeclared types.\<close>

definition uint64T :: rtype where "uint64T = RType ''uint64'' Uint64 0 None"
definition int32T :: rtype where "int32T = RType ''int32'' Int32 0 None"

text \<open>
  The representable range of an integer kind, as the spec speaks of it: two's complement
  for the signed kinds, from 0 for the unsigned ones.
\<close>

definition inRange :: "runtime \<Rightarrow> Kind \<Rightarrow> int \<Rightarrow> bool" where
  "inRange rt k i =
     (if isInt k then - (2 ^ (bitSize rt k - 1)) \<le> i \<and> i < 2 ^ (bitSize rt k - 1)
      else 0 \<le> i \<and> i < 2 ^ bitSize rt k)"

text \<open>
  Types with no conversion: the interface \<open>error\<close> (one method), a slice of strings
  and a struct.
\<close>

definition errorT :: rtype where "errorT = RType ''error'' Interface 1 None"
definition stringsT :: rtype where "stringsT = RType ''[]string'' Slice 0 (Some stringT)"
definition structT :: rtype where "structT = RType ''struct {}'' Struct 0 None"

text \<open>
  Defined types, as a program declares them: \<open>type ID int64\<close>, \<open>type Blob []byte\<close>
  and \<open>type Name string\<close> in package main.
\<close>

definition main_ID :: rtype where "main_ID = RType ''main.ID'' Int64 0 None"
definition main_Blob :: rtype where "main_Blob = RType ''main.Blob'' Slice 0 (Some uint8T)"
definition main_Name :: rtype where "main_Name = RType ''main.Name'' String 0 None"

section \<open>Properties\<close>

lemmas kind_defs = INTEGER_def FLOAT_def TEXT_def BLOB_def NULL_def

lemmas cell_defs = cell_300_def cell_5e9_def cell_pi_def cell_a0b_def cell_blob_def cell_null_def

text \<open>
  C4. On a cell of Kind Integer the Integer converter returns exactly the cell's 64-bit
  signed value, boxed as an \<open>int64\<close>, and the generic converter returns the same; on a
  cell of any other Kind the Integer converter fails with MISUSE "argument must be an
  INTEGER".
\<close>

theorem callbackArgInt64_integer:
  "(sqlite3_value_type c = INTEGER \<longrightarrow>
      callbackArgInt64 c = Inr (Value int64T (PInt (sint (sqlite3_value_int64 c))))
      \<and> callbackArgGeneric c = callbackArgInt64 c)
   \<and> (sqlite3_value_type c \<noteq> INTEGER \<longrightarrow>
      callbackArgInt64 c = Inl (PkgErr MISUSE ''argument must be an INTEGER''))"
  by (simp add: callbackArgInt64_def callbackArgGeneric_def ValueOf_int64_def pkgErr_def)

theorem callbackArgInt64_integer_witness:
  "callbackArgInt64 cell_300 = Inr (Value int64T (PInt 300))
   \<and> callbackArgGeneric cell_300 = Inr (Value int64T (PInt 300))
   \<and> callbackArgInt64 cell_a0b = Inl (PkgErr MISUSE ''argument must be an INTEGER'')"
proof -
  have a: "sqlite3_value_type cell_300 = INTEGER"
    by (simp add: cell_300_def)
  have b: "sqlite3_value_type cell_a0b \<noteq> INTEGER"
    by (simp add: cell_a0b_def kind_defs)
  have v: "sint (sqlite3_value_int64 cell_300) = 300"
    by (simp add: cell_300_def)
  show ?thesis
    using callbackArgInt64_integer [of cell_300] callbackArgInt64_integer [of cell_a0b] a b v
    by simp
qed

text \<open>
  C3. The generic converter dispatches on the cell's Kind: on Integer, Float, Text and
  Blob it returns what the Integer, Float, String and Bytes converter returns on that
  cell, and on Null it returns the nil byte slice, not an error.
\<close>

theorem callbackArgGeneric_dispatch:
  "(sqlite3_value_type c = INTEGER \<longrightarrow> callbackArgGeneric c = callbackArgInt64 c)
   \<and> (sqlite3_value_type c = FLOAT \<longrightarrow> callbackArgGeneric c = callbackArgFloat64 c)
   \<and> (sqlite3_value_type c = TEXT \<longrightarrow> callbackArgGeneric c = callbackArgString c)
   \<and> (sqlite3_value_type c = BLOB \<longrightarrow> callbackArgGeneric c = callbackArgBytes c)
   \<and> (sqlite3_value_type c = NULL \<longrightarrow> callbackArgGeneric c = Inr (Value bytesT (PBytes None)))"
  by (simp add: callbackArgGeneric_def ValueOf_bytes_def kind_defs)

theorem callbackArgGeneric_dispatch_witness:
  "callbackArgGeneric cell_300 = Inr (Value int64T (PInt 300))
   \<and> callbackArgGeneric cell_pi = Inr (Value float64T (PFloat 0x40091EB851EB851F))
   \<and> callbackArgGeneric cell_a0b = Inr (Value stringT (PString [97]))
   \<and> callbackArgGeneric cell_blob = Inr (Value bytesT (PBytes (Some [1, 2, 3])))
   \<and> callbackArgGeneric cell_null = Inr (Value bytesT (PBytes None))"
proof -
  have t: "sqlite3_value_type cell_300 = INTEGER" "sqlite3_value_type cell_pi = FLOAT"
    "sqlite3_value_type cell_a0b = TEXT" "sqlite3_value_type cell_blob = BLOB"
    "sqlite3_value_type cell_null = NULL"
    by (simp_all add: cell_defs)
  have p: "callbackArgInt64 cell_300 = Inr (Value int64T (PInt 300))"
    "callbackArgFloat64 cell_pi = Inr (Value float64T (PFloat 0x40091EB851EB851F))"
    "callbackArgString cell_a0b = Inr (Value stringT (PString [97]))"
    "callbackArgBytes cell_blob = Inr (Value bytesT (PBytes (Some [1, 2, 3])))"
    by (simp_all add: cell_defs kind_defs callbackArgInt64_def callbackArgFloat64_def
        callbackArgString_def callbackArgBytes_def ValueOf_int64_def ValueOf_float64_def
        ValueOf_string_def ValueOf_bytes_def GoString_def GoBytes_def)
  show ?thesis
    using callbackArgGeneric_dispatch [of cell_300] callbackArgGeneric_dispatch [of cell_pi]
      callbackArgGeneric_dispatch [of cell_a0b] callbackArgGeneric_dispatch [of cell_blob]
      callbackArgGeneric_dispatch [of cell_null] t p
    by simp
qed

text \<open>
  C8. A Float, Text or Blob cell presented to a converter that requires another Kind
  yields the converter's MISUSE error (the Integer converter on Float, Text and Blob,
  the Float converter on Text and Blob, the Bytes and String converters on Float), not a
  panic and not a value; and on a cell of any of the five Kinds the generic converter
  returns a value, so its unreachable branch is not taken.
\<close>

theorem mismatched_kind_is_misuse:
  "(sqlite3_value_type c = FLOAT \<or> sqlite3_value_type c = TEXT \<or> sqlite3_value_type c = BLOB
      \<longrightarrow> callbackArgInt64 c = Inl (PkgErr MISUSE ''argument must be an INTEGER''))
   \<and> (sqlite3_value_type c = TEXT \<or> sqlite3_value_type c = BLOB
      \<longrightarrow> callbackArgFloat64 c = Inl (PkgErr MISUSE ''argument must be a FLOAT''))
   \<and> (sqlite3_value_type c = FLOAT
      \<longrightarrow> callbackArgBytes c = Inl (PkgErr MISUSE ''argument must be BLOB or TEXT'')
        \<and> callbackArgString c = Inl (PkgErr MISUSE ''argument must be BLOB or TEXT''))
   \<and> (sqlite3_value_type c = INTEGER \<or> sqlite3_value_type c = FLOAT
      \<or> sqlite3_value_type c = TEXT \<or> sqlite3_value_type c = BLOB \<or> sqlite3_value_type c = NULL
      \<longrightarrow> (\<exists>val. callbackArgGeneric c = Inr val))"
  by (auto simp add: callbackArgGeneric_def callbackArgInt64_def callbackArgFloat64_def
      callbackArgBytes_def callbackArgString_def pkgErr_def kind_defs)

theorem mismatched_kind_is_misuse_witness:
  "callbackArgInt64 cell_pi = Inl (PkgErr MISUSE ''argument must be an INTEGER'')
   \<and> callbackArgFloat64 cell_a0b = Inl (PkgErr MISUSE ''argument must be a FLOAT'')
   \<and> callbackArgBytes cell_pi = Inl (PkgErr MISUSE ''argument must be BLOB or TEXT'')
   \<and> callbackArgString cell_pi = Inl (PkgErr MISUSE ''argument must be BLOB or TEXT'')
   \<and> (\<exists>val. callbackArgGeneric cell_null = Inr val)"
proof -
  have t: "sqlite3_value_type cell_pi = FLOAT" "sqlite3_value_type cell_a0b = TEXT"
    "sqlite3_value_type cell_null = NULL"
    by (simp_all add: cell_defs)
  show ?thesis
    using mismatched_kind_is_misuse [of cell_pi] mismatched_kind_is_misuse [of cell_a0b]
      mismatched_kind_is_misuse [of cell_null] t
    by simp
qed

text \<open>
  C9. On a Text cell whose content has a NUL byte, the String converter returns only the
  bytes before the first NUL, while the Bytes converter returns all the bytes the engine
  counts: the two disagree, and the string is shorter than the content.
\<close>

theorem text_with_nul_string_vs_bytes:
  assumes "sqlite3_value_type c = TEXT"
    and "sqlite3_value_bytes c = length (pre @ 0 # rest)"
    and "sqlite3_value_text c = (pre @ 0 # rest) @ [0]"
    and "0 \<notin> set pre"
  shows "callbackArgString c = Inr (Value stringT (PString pre))
    \<and> callbackArgBytes c = Inr (Value bytesT (PBytes (Some (pre @ 0 # rest))))
    \<and> length pre < length (pre @ 0 # rest)"
proof -
  have "takeWhile (\<lambda>b. b \<noteq> 0) ((pre @ 0 # rest) @ [0]) = pre"
    using assms(4) by (simp add: takeWhile_append)
  then have s: "callbackArgString c = Inr (Value stringT (PString pre))"
    using assms(1,3) by (simp add: callbackArgString_def GoString_def ValueOf_string_def kind_defs)
  have b: "callbackArgBytes c = Inr (Value bytesT (PBytes (Some (pre @ 0 # rest))))"
    using assms(1,2,3) by (simp add: callbackArgBytes_def GoBytes_def ValueOf_bytes_def kind_defs)
  from s b show ?thesis by simp
qed

theorem text_with_nul_string_vs_bytes_witness:
  "callbackArgString cell_a0b = Inr (Value stringT (PString [97]))
   \<and> callbackArgBytes cell_a0b = Inr (Value bytesT (PBytes (Some [97, 0, 98])))"
proof -
  have "sqlite3_value_type cell_a0b = TEXT"
    and "sqlite3_value_bytes cell_a0b = length ([97] @ 0 # [98 :: byte])"
    and "sqlite3_value_text cell_a0b = ([97] @ 0 # [98]) @ [0]"
    and "(0 :: byte) \<notin> set [97]"
    by (simp_all add: cell_a0b_def)
  from text_with_nul_string_vs_bytes [OF this] show ?thesis by simp
qed

subsection \<open>Integer truncation\<close>

lemma wrap_half_id:
  fixes i h :: int
  assumes "- h \<le> i" "i < h"
  shows "(let m = i mod (2 * h) in if h \<le> m then m - 2 * h else m) = i"
proof (cases "0 \<le> i")
  case True
  then have "i mod (2 * h) = i"
    using assms(2) by (intro mod_pos_pos_trivial) linarith+
  then show ?thesis using assms(2) by (simp add: Let_def)
next
  case False
  have "(i + 2 * h) mod (2 * h) = i + 2 * h"
    using False assms(1) by (intro mod_pos_pos_trivial) linarith+
  moreover have "(i + 2 * h) mod (2 * h) = i mod (2 * h)"
    by simp
  ultimately have "i mod (2 * h) = i + 2 * h" by simp
  then show ?thesis using assms(1) False by (simp add: Let_def)
qed

lemma wrap_half_range:
  fixes i h :: int
  assumes "0 < h"
  shows "- h \<le> (let m = i mod (2 * h) in if h \<le> m then m - 2 * h else m)
    \<and> (let m = i mod (2 * h) in if h \<le> m then m - 2 * h else m) < h"
proof -
  define m where "m = i mod (2 * h)"
  have "0 \<le> m" "m < 2 * h"
    using assms by (simp_all add: m_def)
  then have "- h \<le> (if h \<le> m then m - 2 * h else m) \<and> (if h \<le> m then m - 2 * h else m) < h"
    using assms by auto
  then show ?thesis unfolding Let_def m_def .
qed

lemma power2_split: "0 < b \<Longrightarrow> (2::int) ^ b = 2 * 2 ^ (b - 1)"
  by (cases b) simp_all

lemma trunc_signed_id:
  fixes i :: int
  assumes "0 < b" "- (2 ^ (b - 1)) \<le> i" "i < 2 ^ (b - 1)"
  shows "(let m = i mod 2 ^ b in if 2 ^ (b - 1) \<le> m then m - 2 ^ b else m) = i"
  unfolding power2_split [OF assms(1)] by (rule wrap_half_id [OF assms(2,3)])

lemma trunc_signed_range:
  fixes i :: int
  assumes "0 < b"
  shows "- (2 ^ (b - 1)) \<le> (let m = i mod 2 ^ b in if 2 ^ (b - 1) \<le> m then m - 2 ^ b else m)
    \<and> (let m = i mod 2 ^ b in if 2 ^ (b - 1) \<le> m then m - 2 ^ b else m) < 2 ^ (b - 1)"
  unfolding power2_split [OF assms(1)] by (rule wrap_half_range) simp

lemma bitSize_pos: "intSize rt = 32 \<or> intSize rt = 64 \<Longrightarrow> 0 < bitSize rt k"
  by (auto simp add: bitSize_def)

lemma truncInt_inRange_id:
  assumes "intSize rt = 32 \<or> intSize rt = 64" "inRange rt k i"
  shows "truncInt rt k i = i"
proof (cases "isInt k")
  case True
  then show ?thesis
    using assms(2) trunc_signed_id [OF bitSize_pos [OF assms(1)], of k i]
    by (simp add: truncInt_def inRange_def Let_def)
next
  case False
  then show ?thesis using assms(2) by (simp add: truncInt_def inRange_def Let_def)
qed

lemma truncInt_inRange:
  assumes "intSize rt = 32 \<or> intSize rt = 64"
  shows "inRange rt k (truncInt rt k i)"
proof (cases "isInt k")
  case True
  then show ?thesis
    using trunc_signed_range [OF bitSize_pos [OF assms(1)], of k i]
    by (simp add: truncInt_def inRange_def Let_def)
next
  case False
  then show ?thesis by (simp add: truncInt_def inRange_def Let_def)
qed

lemma castKind_cases:
  assumes "k = Int8 \<or> k = Int16 \<or> k = Int32 \<or> k = Uint8 \<or> k = Uint16 \<or> k = Uint32
     \<or> k = Uint64 \<or> k = Int' \<or> k = Uint"
  shows "isInt k \<or> isUint k" "k \<noteq> Float64" "k \<noteq> Float32" "k \<noteq> Interface" "k \<noteq> Slice"
    "k \<noteq> String" "k \<noteq> Bool" "k \<noteq> Int64"
  using assms by (auto simp add: isInt_def isUint_def)

lemma callbackArg_cast:
  assumes "Kind typ = Int8 \<or> Kind typ = Int16 \<or> Kind typ = Int32 \<or> Kind typ = Uint8
     \<or> Kind typ = Uint16 \<or> Kind typ = Uint32 \<or> Kind typ = Uint64 \<or> Kind typ = Int'
     \<or> Kind typ = Uint"
  shows "callbackArg rt typ =
    Inr (callbackArgCast_Run rt \<lparr>cast_f = callbackArgInt64, cast_typ = typ\<rparr>)"
  using castKind_cases [OF assms] assms by (simp add: callbackArg_def Let_def)

lemma cast_run_integer:
  assumes "Kind typ = Int8 \<or> Kind typ = Int16 \<or> Kind typ = Int32 \<or> Kind typ = Uint8
     \<or> Kind typ = Uint16 \<or> Kind typ = Uint32 \<or> Kind typ = Uint64 \<or> Kind typ = Int'
     \<or> Kind typ = Uint"
    and "sqlite3_value_type c = INTEGER"
  shows "callbackArgCast_Run rt \<lparr>cast_f = callbackArgInt64, cast_typ = typ\<rparr> c =
    Inr (Value typ (PInt (truncInt rt (Kind typ) (sint (sqlite3_value_int64 c)))))"
proof -
  have n: "isNumeric (Kind typ)"
    using castKind_cases(1) [OF assms(1)] by (auto simp add: isNumeric_def)
  have c: "ConvertibleTo int64T typ"
    using n by (simp add: ConvertibleTo_def int64T_def isNumeric_def isInt_def)
  show ?thesis
    using castKind_cases [OF assms(1)] assms(2) c
    by (simp add: callbackArgCast_Run_def callbackArgInt64_def ValueOf_int64_def Convert_def
        Let_def int64T_def isInt_def)
qed

text \<open>
  C1, as amended. For every declared integer type other than \<open>int64\<close> (kinds Int8,
  Int16, Int32, Uint8, Uint16, Uint32, Uint64, Int, Uint) and every Integer cell holding
  \<open>v\<close>, the builder returns the cast converter, and the cast converter succeeds: it
  yields, at the declared type, \<open>v\<close> truncated to the type's width, which lies in the
  type's range, equals \<open>v\<close> when \<open>v\<close> is in range, and differs from \<open>v\<close> when it
  is not. No range check is made and no MISUSE error is returned.
\<close>

theorem callbackArg_cast_truncates:
  assumes "Kind typ = Int8 \<or> Kind typ = Int16 \<or> Kind typ = Int32 \<or> Kind typ = Uint8
     \<or> Kind typ = Uint16 \<or> Kind typ = Uint32 \<or> Kind typ = Uint64 \<or> Kind typ = Int'
     \<or> Kind typ = Uint"
    and "intSize rt = 32 \<or> intSize rt = 64"
    and "sqlite3_value_type c = INTEGER"
  shows "callbackArg rt typ =
      Inr (callbackArgCast_Run rt \<lparr>cast_f = callbackArgInt64, cast_typ = typ\<rparr>)
    \<and> callbackArgCast_Run rt \<lparr>cast_f = callbackArgInt64, cast_typ = typ\<rparr> c =
      Inr (Value typ (PInt (truncInt rt (Kind typ) (sint (sqlite3_value_int64 c)))))
    \<and> inRange rt (Kind typ) (truncInt rt (Kind typ) (sint (sqlite3_value_int64 c)))
    \<and> (inRange rt (Kind typ) (sint (sqlite3_value_int64 c)) \<longrightarrow>
        truncInt rt (Kind typ) (sint (sqlite3_value_int64 c)) = sint (sqlite3_value_int64 c))
    \<and> (\<not> inRange rt (Kind typ) (sint (sqlite3_value_int64 c)) \<longrightarrow>
        truncInt rt (Kind typ) (sint (sqlite3_value_int64 c)) \<noteq> sint (sqlite3_value_int64 c))"
proof -
  have r: "inRange rt (Kind typ) (truncInt rt (Kind typ) (sint (sqlite3_value_int64 c)))"
    by (rule truncInt_inRange [OF assms(2)])
  show ?thesis
    using callbackArg_cast [OF assms(1)] cast_run_integer [OF assms(1) assms(3)] r
      truncInt_inRange_id [OF assms(2)]
    by auto
qed

theorem callbackArg_cast_truncates_witness:
  "callbackArg amd64 int32T =
      Inr (callbackArgCast_Run amd64 \<lparr>cast_f = callbackArgInt64, cast_typ = int32T\<rparr>)
   \<and> callbackArgCast_Run amd64 \<lparr>cast_f = callbackArgInt64, cast_typ = int32T\<rparr> cell_300 =
      Inr (Value int32T (PInt 300))
   \<and> inRange amd64 Int32 300"
proof -
  have k: "Kind int32T = Int8 \<or> Kind int32T = Int16 \<or> Kind int32T = Int32 \<or> Kind int32T = Uint8
     \<or> Kind int32T = Uint16 \<or> Kind int32T = Uint32 \<or> Kind int32T = Uint64 \<or> Kind int32T = Int'
     \<or> Kind int32T = Uint"
    by (simp add: int32T_def)
  have s: "intSize amd64 = 32 \<or> intSize amd64 = 64"
    by (simp add: amd64_def)
  have t: "sqlite3_value_type cell_300 = INTEGER"
    by (simp add: cell_300_def)
  have v: "sint (sqlite3_value_int64 cell_300) = 300" "Kind int32T = Int32"
    by (simp_all add: cell_300_def int32T_def)
  have r: "inRange amd64 Int32 300"
    by (simp add: inRange_def bitSize_def isInt_def)
  show ?thesis
    using callbackArg_cast_truncates [OF k s t] r by (simp add: v)
qed

text \<open>
  C1 as stated fails: for a 32-bit signed parameter and the Integer cell 5000000000,
  which is out of range, the cast converter succeeds with 705032704.
\<close>

theorem cast_out_of_range_counterexample:
  "callbackArg amd64 int32T =
      Inr (callbackArgCast_Run amd64 \<lparr>cast_f = callbackArgInt64, cast_typ = int32T\<rparr>)
   \<and> callbackArgCast_Run amd64 \<lparr>cast_f = callbackArgInt64, cast_typ = int32T\<rparr> cell_5e9 =
      Inr (Value int32T (PInt 705032704))
   \<and> sqlite3_value_type cell_5e9 = INTEGER
   \<and> sint (sqlite3_value_int64 cell_5e9) = 5000000000
   \<and> \<not> inRange amd64 Int32 5000000000"
proof -
  have a: "callbackArg amd64 int32T =
      Inr (callbackArgCast_Run amd64 \<lparr>cast_f = callbackArgInt64, cast_typ = int32T\<rparr>)"
    by (simp add: callbackArg_def int32T_def)
  have t: "truncInt amd64 Int32 5000000000 = 705032704"
    by (simp add: truncInt_def bitSize_def isInt_def Let_def)
  have c: "sqlite3_value_type cell_5e9 = INTEGER" "sint (sqlite3_value_int64 cell_5e9) = 5000000000"
    by (simp_all add: cell_5e9_def)
  have b: "callbackArgCast_Run amd64 \<lparr>cast_f = callbackArgInt64, cast_typ = int32T\<rparr> cell_5e9 =
      Inr (Value int32T (PInt 705032704))"
    using c t
    by (simp add: callbackArgCast_Run_def callbackArgInt64_def ValueOf_int64_def
        ConvertibleTo_def Convert_def isNumeric_def isInt_def isUint_def int64T_def int32T_def)
  have r: "\<not> inRange amd64 Int32 5000000000"
    by (simp add: inRange_def bitSize_def isInt_def)
  from a b c r show ?thesis by simp
qed

text \<open>
  C10. A returned value of kind Uint64 holding \<open>v\<close> with \<open>v\<close> at least \<open>2^63\<close> is
  written by the integer-family return converter through the integer result primitive as
  \<open>v - 2^64\<close>, a negative 64-bit signed integer; no error is returned.
\<close>

theorem callbackRetInteger_uint64_wraps:
  assumes "Kind (Type v) = Uint64" and "payload v = PInt i" and "2 ^ 63 \<le> i" and "i < 2 ^ 64"
  shows "callbackRetInteger rt ctx v = (ctx @ [Result_int64 (word_of_int (i - 2 ^ 64))], None)
    \<and> sint (word_of_int (i - 2 ^ 64) :: 64 word) = i - 2 ^ 64
    \<and> i - 2 ^ 64 < 0"
proof -
  have c: "ConvertibleTo (Type v) int64T"
    using assms(1) by (simp add: ConvertibleTo_def isNumeric_def isInt_def isUint_def int64T_def)
  have t: "truncInt rt Int64 i = i - 2 ^ 64"
    using assms(3,4) by (simp add: truncInt_def bitSize_def isInt_def Let_def)
  have cv: "Convert rt v int64T = Inr (Value int64T (PInt (i - 2 ^ 64)))"
    using c t assms(1,2) by (simp add: Convert_def Let_def isInt_def isUint_def int64T_def)
  have r: "callbackRetInteger rt ctx v = (ctx @ [Result_int64 (word_of_int (i - 2 ^ 64))], None)"
    using cv assms(1)
    by (simp add: callbackRetInteger_def Let_def Interface_int64_def sqlite3_result_int64_def)
  have sw: "sint (word_of_int j :: 64 word) = j" if "- (2 ^ 63) \<le> j" "j < 2 ^ 63" for j :: int
    using that by (simp add: sint_sbintrunc' signed_take_bit_int_eq_self)
  have s: "sint (word_of_int (i - 2 ^ 64) :: 64 word) = i - 2 ^ 64"
    by (rule sw) (use assms(3,4) in simp_all)
  from r s assms(4) show ?thesis by simp
qed

theorem callbackRetInteger_uint64_wraps_witness:
  "callbackRetInteger amd64 [] (Value uint64T (PInt 18446744073709551615)) =
     ([Result_int64 (- 1)], None)"
proof -
  have "Kind (Type (Value uint64T (PInt 18446744073709551615))) = Uint64"
    and "payload (Value uint64T (PInt 18446744073709551615)) = PInt 18446744073709551615"
    and "(2::int) ^ 63 \<le> 18446744073709551615" and "(18446744073709551615::int) < 2 ^ 64"
    by (simp_all add: uint64T_def)
  from callbackRetInteger_uint64_wraps [OF this, of amd64 "[]"] show ?thesis by simp
qed

subsection \<open>What the builders return\<close>

lemma callbackArg_converters:
  assumes "callbackArg rt typ = Inr f"
  shows "f = callbackArgGeneric \<or> f = callbackArgBytes \<or> f = callbackArgString
    \<or> f = callbackArgBool \<or> f = callbackArgInt64 \<or> f = callbackArgFloat64
    \<or> (isNumeric (Kind typ) \<and> f = callbackArgCast_Run rt \<lparr>cast_f = callbackArgInt64, cast_typ = typ\<rparr>)
    \<or> (isNumeric (Kind typ) \<and> f = callbackArgCast_Run rt \<lparr>cast_f = callbackArgFloat64, cast_typ = typ\<rparr>)"
  using assms
  by (auto simp add: callbackArg_def Let_def pkgErr_def isNumeric_def isInt_def isUint_def
      isFloat_def split: if_splits sum.splits)

lemma arg_error_messages:
  assumes "callbackArg rt typ = Inr f" and "f c = Inl (PkgErr rc m)"
  shows "m = ''argument must be an INTEGER'' \<or> m = ''argument must be a FLOAT''
    \<or> m = ''argument must be BLOB or TEXT''"
  using callbackArg_converters [OF assms(1)] assms(2)
  by (auto simp add: callbackArgGeneric_def callbackArgBytes_def callbackArgString_def
      callbackArgBool_def callbackArgInt64_def callbackArgFloat64_def callbackArgCast_Run_def
      pkgErr_def ConvertibleTo_def Convert_def ValueOf_int64_def ValueOf_float64_def
      int64T_def float64T_def isNumeric_def isInt_def isUint_def isFloat_def Let_def
      split: if_splits sum.splits)

lemma ret_converters:
  assumes "callbackRet rt typ = Inr g"
  shows "g = callbackRetBlob \<or> g = callbackRetText \<or> g = callbackRetInteger rt
    \<or> g = callbackRetFloat rt"
  using assms
  by (auto simp add: callbackRet_def Let_def pkgErr_def split: if_splits sum.splits)

lemma ret_error_messages:
  assumes "callbackRet rt typ = Inr g" and "snd (g ctx v) = Some (PkgErr rc m)"
  shows "\<exists>x. m = ''cannot convert '' @ x"
  using ret_converters [OF assms(1)] assms(2)
  by (auto simp add: callbackRetBlob_def callbackRetText_def callbackRetInteger_def
      callbackRetFloat_def pkgErr_def Let_def Interface_is_nil_def
      Interface_int64_def Interface_float64_def Interface_bytes_def Interface_string_def
      Interface_bool_def assert_panic_def Convert_def Elem_def
      split: if_splits sum.splits option.splits payload.splits)


lemma arg_never_build_message:
  assumes "callbackArg rt typ = Inr f" and "f c = Inl (PkgErr rc m)"
  shows "m \<noteq> ''the only supported slice type is []byte''
    \<and> m \<noteq> ''the only supported interface type is interface{}''
    \<and> (\<forall>x. m \<noteq> ''don't know how to convert to '' @ x)"
proof -
  have "m = ''argument must be an INTEGER'' \<or> m = ''argument must be a FLOAT''
    \<or> m = ''argument must be BLOB or TEXT''"
    by (rule arg_error_messages [OF assms])
  then show ?thesis
    by (elim disjE) simp_all
qed

lemma ret_never_build_message:
  assumes "callbackRet rt typ = Inr g" and "snd (g ctx v) = Some (PkgErr rc m)"
  shows "m \<noteq> ''the only supported slice type is []byte''
    \<and> m \<noteq> ''the only supported interface type is interface{}''
    \<and> (\<forall>x. m \<noteq> ''don't know how to convert to '' @ x)"
proof -
  obtain y where "m = ''cannot convert '' @ y"
    using ret_error_messages [OF assms] by (elim exE)
  then show ?thesis by simp
qed

text \<open>
  C6, as amended. A declared type with no conversion fails at build time with MISUSE. In
  both builders a slice type whose element is not a byte yields "the only supported slice
  type is []byte". In the argument builder an interface type with methods yields "the
  only supported interface type is interface{}"; the return builder has no interface
  case and answers every interface type with "don't know how to convert to X". A type
  of any other unsupported kind yields "don't know how to convert to X" in both. None of
  the three errors is returned at call time by a converter that a builder returned.
\<close>

theorem unsupported_types_fail_at_build:
  "(Kind typ = Slice \<and> elem typ = Some e \<and> Kind e \<noteq> Uint8 \<longrightarrow>
      callbackArg rt typ = Inl (PkgErr MISUSE ''the only supported slice type is []byte'')
      \<and> callbackRet rt typ = Inl (PkgErr MISUSE ''the only supported slice type is []byte''))
   \<and> (Kind typ = Interface \<and> NumMethod typ \<noteq> 0 \<longrightarrow>
      callbackArg rt typ = Inl (PkgErr MISUSE ''the only supported interface type is interface{}''))
   \<and> (Kind typ = Interface \<longrightarrow>
      callbackRet rt typ = Inl (PkgErr MISUSE (''don't know how to convert to '' @ TypeString typ)))
   \<and> (Kind typ \<notin> {Interface, Slice, String, Bool, Int64, Int8, Int16, Int32, Uint8, Uint16,
        Uint32, Uint64, Int', Uint, Float64, Float32} \<longrightarrow>
      callbackArg rt typ = Inl (PkgErr MISUSE (''don't know how to convert to '' @ TypeString typ))
      \<and> callbackRet rt typ = Inl (PkgErr MISUSE (''don't know how to convert to '' @ TypeString typ)))
   \<and> (callbackArg rt typ = Inr f \<and> f c = Inl (PkgErr rc m) \<longrightarrow>
      m \<noteq> ''the only supported slice type is []byte''
      \<and> m \<noteq> ''the only supported interface type is interface{}''
      \<and> (\<forall>x. m \<noteq> ''don't know how to convert to '' @ x))
   \<and> (callbackRet rt typ = Inr g \<and> snd (g ctx v) = Some (PkgErr rc m) \<longrightarrow>
      m \<noteq> ''the only supported slice type is []byte''
      \<and> m \<noteq> ''the only supported interface type is interface{}''
      \<and> (\<forall>x. m \<noteq> ''don't know how to convert to '' @ x))"
proof -
  have a: "callbackArg rt typ = Inr f \<and> f c = Inl (PkgErr rc m) \<longrightarrow>
      m \<noteq> ''the only supported slice type is []byte''
      \<and> m \<noteq> ''the only supported interface type is interface{}''
      \<and> (\<forall>x. m \<noteq> ''don't know how to convert to '' @ x)"
  proof (rule impI, elim conjE)
    assume "callbackArg rt typ = Inr f" and "f c = Inl (PkgErr rc m)"
    then show "m \<noteq> ''the only supported slice type is []byte''
      \<and> m \<noteq> ''the only supported interface type is interface{}''
      \<and> (\<forall>x. m \<noteq> ''don't know how to convert to '' @ x)"
      by (rule arg_never_build_message)
  qed
  have r: "callbackRet rt typ = Inr g \<and> snd (g ctx v) = Some (PkgErr rc m) \<longrightarrow>
      m \<noteq> ''the only supported slice type is []byte''
      \<and> m \<noteq> ''the only supported interface type is interface{}''
      \<and> (\<forall>x. m \<noteq> ''don't know how to convert to '' @ x)"
  proof (rule impI, elim conjE)
    assume "callbackRet rt typ = Inr g" and "snd (g ctx v) = Some (PkgErr rc m)"
    then show "m \<noteq> ''the only supported slice type is []byte''
      \<and> m \<noteq> ''the only supported interface type is interface{}''
      \<and> (\<forall>x. m \<noteq> ''don't know how to convert to '' @ x)"
      by (rule ret_never_build_message)
  qed
  have s: "Kind typ = Slice \<and> elem typ = Some e \<and> Kind e \<noteq> Uint8 \<longrightarrow>
      callbackArg rt typ = Inl (PkgErr MISUSE ''the only supported slice type is []byte'')
      \<and> callbackRet rt typ = Inl (PkgErr MISUSE ''the only supported slice type is []byte'')"
    by (simp add: callbackArg_def callbackRet_def Let_def pkgErr_def Elem_def)
  have n: "Kind typ = Interface \<and> NumMethod typ \<noteq> 0 \<longrightarrow>
      callbackArg rt typ = Inl (PkgErr MISUSE ''the only supported interface type is interface{}'')"
    by (simp add: callbackArg_def Let_def pkgErr_def)
  have i: "Kind typ = Interface \<longrightarrow>
      callbackRet rt typ = Inl (PkgErr MISUSE (''don't know how to convert to '' @ TypeString typ))"
    by (simp add: callbackRet_def Let_def pkgErr_def)
  have o: "Kind typ \<notin> {Interface, Slice, String, Bool, Int64, Int8, Int16, Int32, Uint8, Uint16,
        Uint32, Uint64, Int', Uint, Float64, Float32} \<longrightarrow>
      callbackArg rt typ = Inl (PkgErr MISUSE (''don't know how to convert to '' @ TypeString typ))
      \<and> callbackRet rt typ = Inl (PkgErr MISUSE (''don't know how to convert to '' @ TypeString typ))"
    by (simp add: callbackArg_def callbackRet_def Let_def pkgErr_def)
  from s n i o a r show ?thesis
    by (intro conjI)
qed

text \<open>
  C6 as stated fails for the return builder: for the interface type \<open>error\<close>, which
  exposes a method, it answers "don't know how to convert to error", not "the only
  supported interface type is interface{}".
\<close>

theorem ret_interface_message_counterexample:
  "Kind errorT = Interface \<and> NumMethod errorT = 1
   \<and> callbackRet amd64 errorT = Inl (PkgErr MISUSE ''don't know how to convert to error'')
   \<and> callbackRet amd64 errorT \<noteq>
       Inl (PkgErr MISUSE ''the only supported interface type is interface{}'')"
  by (simp add: callbackRet_def errorT_def pkgErr_def)


theorem unsupported_types_fail_at_build_witness:
  "callbackArg amd64 stringsT = Inl (PkgErr MISUSE ''the only supported slice type is []byte'')
   \<and> callbackRet amd64 stringsT = Inl (PkgErr MISUSE ''the only supported slice type is []byte'')
   \<and> callbackArg amd64 errorT =
       Inl (PkgErr MISUSE ''the only supported interface type is interface{}'')
   \<and> callbackRet amd64 errorT = Inl (PkgErr MISUSE ''don't know how to convert to error'')
   \<and> callbackArg amd64 structT = Inl (PkgErr MISUSE ''don't know how to convert to struct {}'')
   \<and> callbackRet amd64 structT = Inl (PkgErr MISUSE ''don't know how to convert to struct {}'')
   \<and> callbackArg amd64 int64T = Inr callbackArgInt64
   \<and> callbackArgInt64 cell_pi = Inl (PkgErr MISUSE ''argument must be an INTEGER'')
   \<and> callbackRet amd64 int64T = Inr (callbackRetInteger amd64)
   \<and> snd (callbackRetInteger amd64 [] (Value stringT (PString [111, 107]))) =
       Some (PkgErr MISUSE ''cannot convert string to INTEGER'')"
proof -
  have s: "Kind stringsT = Slice \<and> elem stringsT = Some stringT \<and> Kind stringT \<noteq> Uint8"
    by (simp add: stringsT_def stringT_def)
  have i: "Kind errorT = Interface \<and> NumMethod errorT \<noteq> 0"
    by (simp add: errorT_def)
  have o: "Kind structT \<notin> {Interface, Slice, String, Bool, Int64, Int8, Int16, Int32, Uint8,
      Uint16, Uint32, Uint64, Int', Uint, Float64, Float32}"
    by (simp add: structT_def)
  have n: "TypeString errorT = ''error''" "TypeString structT = ''struct {}''"
    by (simp_all add: errorT_def structT_def)
  have a: "callbackArg amd64 int64T = Inr callbackArgInt64
      \<and> callbackArgInt64 cell_pi = Inl (PkgErr MISUSE ''argument must be an INTEGER'')"
    by (simp add: callbackArg_def int64T_def callbackArgInt64_def cell_pi_def pkgErr_def kind_defs)
  have r: "callbackRet amd64 int64T = Inr (callbackRetInteger amd64)
      \<and> snd (callbackRetInteger amd64 [] (Value stringT (PString [111, 107]))) =
        Some (PkgErr MISUSE ''cannot convert string to INTEGER'')"
    by (simp add: callbackRet_def int64T_def callbackRetInteger_def stringT_def pkgErr_def)
  show ?thesis
    using unsupported_types_fail_at_build [of stringsT stringT amd64] s
      unsupported_types_fail_at_build [of errorT _ amd64] i
      unsupported_types_fail_at_build [of structT _ amd64] o
      unsupported_types_fail_at_build [of int64T _ amd64 callbackArgInt64 cell_pi MISUSE
        "''argument must be an INTEGER''"] a
      unsupported_types_fail_at_build [of int64T _ amd64 _ _ MISUSE
        "''cannot convert string to INTEGER''" "callbackRetInteger amd64" "[]"
        "Value stringT (PString [111, 107])"] r
    by (simp add: n)
qed

subsection \<open>Return converters: one write or none\<close>

text \<open>
  Each return converter either calls one result primitive and returns no error, or
  leaves the context as it was and ends in an error or a panic. \<open>callbackError\<close> calls
  the error primitive once.
\<close>

lemma callbackRetInteger_writes_once:
  "(\<exists>i. callbackRetInteger rt ctx v = (ctx @ [Result_int64 i], None))
   \<or> (\<exists>e. callbackRetInteger rt ctx v = (ctx, Some e))"
  by (auto simp add: callbackRetInteger_def Let_def sqlite3_result_int64_def
      split: sum.splits)

lemma callbackRetFloat_writes_once:
  "(\<exists>d. callbackRetFloat rt ctx v = (ctx @ [Result_double d], None))
   \<or> (\<exists>e. callbackRetFloat rt ctx v = (ctx, Some e))"
  by (auto simp add: callbackRetFloat_def Let_def sqlite3_result_double_def
      split: sum.splits)

lemma callbackRetBlob_writes_once:
  "callbackRetBlob ctx v = (ctx @ [Result_null], None)
   \<or> (\<exists>b. callbackRetBlob ctx v = (ctx @ [Result_blob b], None))
   \<or> (\<exists>e. callbackRetBlob ctx v = (ctx, Some e))"
  by (auto simp add: callbackRetBlob_def Let_def sqlite3_result_null_def
      sqlite3_result_blob'_def split: sum.splits)

lemma callbackRetText_writes_once:
  "(\<exists>s. callbackRetText ctx v = (ctx @ [Result_text s], None))
   \<or> (\<exists>e. callbackRetText ctx v = (ctx, Some e))"
  by (auto simp add: callbackRetText_def sqlite3_result_text'_def split: sum.splits)

lemma callbackError_writes_once:
  "\<exists>s. callbackError Error ctx err = ctx @ [Result_error s]"
  by (simp add: callbackError_def sqlite3_result_error_def)

subsection \<open>The integer family\<close>

text \<open>
  On the predeclared \<open>bool\<close> and \<open>int64\<close>, on every other integer kind and on every
  kind outside the family, \<open>callbackRetInteger\<close> does what the spec says.
\<close>

lemma callbackRetInteger_int64:
  assumes "Type v = int64T" and "payload v = PInt i"
  shows "callbackRetInteger rt ctx v = (ctx @ [Result_int64 (word_of_int i)], None)"
  using assms
  by (simp add: callbackRetInteger_def Let_def Interface_int64_def sqlite3_result_int64_def
      int64T_def)

lemma callbackRetInteger_bool:
  assumes "Type v = boolT" and "payload v = PBool b"
  shows "callbackRetInteger rt ctx v = (ctx @ [Result_int64 (if b then 1 else 0)], None)"
  using assms
  by (simp add: callbackRetInteger_def Let_def Interface_bool_def Interface_int64_def
      ValueOf_int64_def sqlite3_result_int64_def boolT_def int64T_def)

lemma word_of_int_truncInt64: "(word_of_int (truncInt rt Int64 i) :: 64 word) = word_of_int i"
proof -
  have "(word_of_int (i mod 2 ^ 64 - 2 ^ 64) :: 64 word) = word_of_int (i mod 2 ^ 64) - word_of_int (2 ^ 64)"
    by (simp only: wi_hom_sub)
  moreover have "(word_of_int (i mod 2 ^ 64) :: 64 word) = word_of_int i"
    by (simp add: word_of_int_eq_iff take_bit_eq_mod)
  moreover have "(word_of_int (2 ^ 64) :: 64 word) = 0"
    by simp
  ultimately show ?thesis
    by (simp add: truncInt_def bitSize_def isInt_def Let_def)
qed

lemma callbackRetInteger_widths:
  assumes "Kind (Type v) = Int8 \<or> Kind (Type v) = Int16 \<or> Kind (Type v) = Int32
      \<or> Kind (Type v) = Uint8 \<or> Kind (Type v) = Uint16 \<or> Kind (Type v) = Uint32
      \<or> Kind (Type v) = Uint64 \<or> Kind (Type v) = Int' \<or> Kind (Type v) = Uint"
    and "payload v = PInt i"
  shows "callbackRetInteger rt ctx v = (ctx @ [Result_int64 (word_of_int i)], None)"
proof -
  have k: "isInt (Kind (Type v)) \<or> isUint (Kind (Type v))" "Kind (Type v) \<noteq> Int64"
    using assms(1) by (auto simp add: isInt_def isUint_def)
  have c: "ConvertibleTo (Type v) int64T"
    using k(1) by (auto simp add: ConvertibleTo_def isNumeric_def isInt_def int64T_def)
  have cv: "Convert rt v int64T = Inr (Value int64T (PInt (truncInt rt Int64 i)))"
    using c k(1) assms(2) by (simp add: Convert_def Let_def int64T_def)
  show ?thesis
    using cv k(2) assms(1)
    by (simp add: callbackRetInteger_def Let_def Interface_int64_def sqlite3_result_int64_def
        word_of_int_truncInt64)
qed

lemma callbackRetInteger_other:
  assumes "Kind (Type v) \<notin> {Bool, Int64, Int8, Int16, Int32, Uint8, Uint16, Uint32, Uint64,
      Int', Uint}"
  shows "callbackRetInteger rt ctx v =
    (ctx, Some (PkgErr MISUSE (''cannot convert '' @ TypeString (Type v) @ '' to INTEGER'')))"
  using assms by (simp add: callbackRetInteger_def Let_def pkgErr_def)

text \<open>
  C5, at a failing input. The claim has every integer value written and every other value
  refused with MISUSE, without a crash. For a value of the defined type \<open>main.ID\<close>
  (kind Int64), which the return builder accepts, \<open>callbackRetInteger\<close> writes nothing
  and returns no error: the kind Int64 is passed on unconverted and the type assertion
  to \<open>int64\<close> panics.
\<close>

theorem callbackRetInteger_defined_int64_panics:
  "callbackRet amd64 main_ID = Inr (callbackRetInteger amd64)
   \<and> callbackRetInteger amd64 [] (Value main_ID (PInt 5)) =
       ([], Some (Panic ''interface conversion: interface {} is main.ID, not int64''))"
  by (simp add: callbackRet_def callbackRetInteger_def Let_def main_ID_def Interface_int64_def
      assert_panic_def int64T_def)

subsection \<open>Blobs and text\<close>

text \<open>On a \<open>[]byte\<close> and on every type that is not a slice of bytes, \<open>callbackRetBlob\<close>
  does what the spec says.\<close>

lemma callbackRetBlob_bytes:
  assumes "Type v = bytesT" and "payload v = PBytes bs"
  shows "callbackRetBlob ctx v =
    (if bs = None \<or> bs = Some [] then (ctx @ [Result_null], None)
     else (ctx @ [Result_blob (the bs)], None))"
  using assms
  by (auto simp add: callbackRetBlob_def Let_def Elem_def bytesT_def uint8T_def
      Interface_is_nil_def Interface_bytes_def len_def data_def sqlite3_result_null_def
      sqlite3_result_blob'_def split: option.splits)

lemma callbackRetBlob_other:
  assumes "Kind (Type v) \<noteq> Slice \<or> (\<exists>e. elem (Type v) = Some e \<and> Kind e \<noteq> Uint8)"
  shows "callbackRetBlob ctx v =
    (ctx, Some (PkgErr MISUSE (''cannot convert '' @ TypeString (Type v) @ '' to BLOB'')))"
  using assms by (auto simp add: callbackRetBlob_def Let_def Elem_def pkgErr_def)

text \<open>
  C2, at a failing input. The claim has every value either refused with MISUSE or written
  as NULL or as a blob. For a value of the defined type \<open>main.Blob\<close> (a slice of
  bytes), which the return builder accepts and the converter's kind test lets through,
  \<open>callbackRetBlob\<close> writes nothing and returns no error: the type assertion to
  \<open>[]byte\<close> panics.
\<close>

theorem callbackRetBlob_defined_slice_panics:
  "callbackRet amd64 main_Blob = Inr callbackRetBlob
   \<and> callbackRetBlob [] (Value main_Blob (PBytes (Some [1, 2, 3]))) =
       ([], Some (Panic ''interface conversion: interface {} is main.Blob, not []uint8''))"
  by (simp add: callbackRet_def callbackRetBlob_def Let_def main_Blob_def Elem_def uint8T_def
      Interface_is_nil_def Interface_bytes_def assert_panic_def bytesT_def)

text \<open>
  C7, at a failing input. The claim has every conversion end in exactly one of a value
  and an error, never neither. For a value of the defined type \<open>main.Name\<close> (kind
  String), which the return builder accepts, \<open>callbackRetText\<close> produces neither: it
  panics in the type assertion to \<open>string\<close>, with the result slot unwritten.
\<close>

theorem callbackRetText_defined_string_panics:
  "callbackRet amd64 main_Name = Inr callbackRetText
   \<and> callbackRetText [] (Value main_Name (PString [111, 107])) =
       ([], Some (Panic ''interface conversion: interface {} is main.Name, not string''))"
  by (simp add: callbackRet_def callbackRetText_def Let_def main_Name_def
      Interface_string_def assert_panic_def stringT_def)

end
